theory Spec2Isabelle
  imports Main
begin

text \<open>
  A model of \<open>src/App.tsx\<close>, a single-page storefront with three themes and three pages:
  the theme and page cells of its two providers, the store that keeps the theme, the
  table of style tokens, the product hook, and the element trees its pages render. The
  header component, which only renders the two cells and calls their setters, is not
  modelled.
\<close>

section \<open>Runtime values\<close>

text \<open>
  \<^verbatim>\<open>type ThemeType = 'theme1' | 'theme2' | 'theme3'\<close> exists only at compile time. At
  run time a theme is a JavaScript string, and \<^verbatim>\<open>saved as ThemeType\<close> performs no check,
  so the theme cell is modelled as a \<open>string\<close> and the type as a predicate on it.
\<close>

type_synonym ThemeType = string

definition isThemeType :: "string \<Rightarrow> bool" where
  "isThemeType t = (t = ''theme1'' \<or> t = ''theme2'' \<or> t = ''theme3'')"

section \<open>Products\<close>

text \<open>
  The interface \<open>Product\<close> (lines 5 to 16). Its numbers are JavaScript numbers that the
  program only displays, so their type is left open as \<open>'n\<close>. The fields \<open>id\<close> and
  \<open>image\<close> are written \<open>id'\<close> and \<open>image'\<close>.
\<close>

record 'n Rating =
  rate :: 'n
  count :: 'n

record 'n Product =
  id' :: 'n
  title :: string
  price :: 'n
  description :: string
  category :: string
  image' :: string
  rating :: "'n Rating"

section \<open>The persistent store\<close>

text \<open>
  \<open>localStorage\<close> is a store of string keys and string values. \<open>getItem\<close> answers
  \<open>null\<close> (here \<open>None\<close>) for a key that is not there; \<open>setItem\<close> replaces the value
  of a key or adds the key.
\<close>

type_synonym storage = "(string \<times> string) list"

fun getItem :: "storage \<Rightarrow> string \<Rightarrow> string option" where
  "getItem [] k = None"
| "getItem ((k', v') # kvs) k = (if k' = k then Some v' else getItem kvs k)"

fun setItem :: "storage \<Rightarrow> string \<Rightarrow> string \<Rightarrow> storage" where
  "setItem [] k v = [(k, v)]"
| "setItem ((k', v') # kvs) k v =
     (if k' = k then (k, v) # kvs else (k', v') # setItem kvs k v)"

text \<open>
  JavaScript's \<open>a || b\<close> on a value that is a string or \<open>null\<close>: \<open>null\<close> and the empty
  string are falsy, every other string is truthy.
\<close>

fun orElse :: "string option \<Rightarrow> string \<Rightarrow> string" where
  "orElse None d = d"
| "orElse (Some s) d = (if s = [] then d else s)"

text \<open>
  The lazy initializer of the theme cell (App.tsx, lines 38 to 41):
  \<^verbatim>\<open>const saved = localStorage.getItem('app-theme'); return (saved as ThemeType) || 'theme1';\<close>
  The specification calls it \<open>loadTheme\<close>.
\<close>

definition loadTheme :: "storage \<Rightarrow> ThemeType" where
  "loadTheme store = (let saved = getItem store ''app-theme'' in orElse saved ''theme1'')"

section \<open>Theme styles\<close>

text \<open>
  The interface \<open>ThemeStyles\<close> (lines 85 to 104). The two optional fields
  \<open>sidebar?\<close> and \<open>content?\<close> are \<open>undefined\<close> (here \<open>None\<close>) in a bundle that does
  not set them. The fields \<open>paragraph\<close> and \<open>card\<close> are written \<open>paragraph'\<close> and
  \<open>card'\<close>.
\<close>

record ThemeStyles =
  container :: string
  header :: string
  headerContent :: string
  logo :: string
  dropdown :: string
  dropdownButton :: string
  dropdownMenu :: string
  nav :: string
  navButton :: string
  main :: string
  sidebar :: "string option"
  content :: "string option"
  title :: string
  paragraph' :: string
  button :: string
  card' :: string
  productGrid :: string
  productCard :: string

definition baseTransition :: string where
  "baseTransition = ''transition-all duration-500 ease-in-out''"

text \<open>
  The three object literals that \<open>getThemeStyles\<close> returns (lines 111 to 128, 131 to
  150 and 153 to 170), each under a name. A template literal
  \<^verbatim>\<open>`... ${baseTransition}`\<close> is the concatenation of its text and \<open>baseTransition\<close>
  (line 107).
\<close>

definition theme1Styles :: ThemeStyles where
  "theme1Styles =
     \<lparr>
     container = ''min-h-screen bg-gray-50 text-gray-900 font-sans '' @ baseTransition,
     header = ''fixed top-0 w-full bg-white shadow-sm border-b border-gray-200 z-50 '' @ baseTransition,
     headerContent = ''max-w-6xl mx-auto px-4 py-4 flex justify-between items-center'',
     logo = ''text-xl font-medium text-gray-900'',
     dropdown = ''relative'',
     dropdownButton = ''flex items-center space-x-2 px-4 py-2 bg-gray-100 rounded-lg hover:bg-gray-200 transition-colors'',
     dropdownMenu = ''absolute right-0 mt-2 w-48 bg-white rounded-lg shadow-lg border border-gray-200 py-2'',
     nav = ''flex space-x-6'',
     navButton = ''flex items-center space-x-2 px-3 py-2 text-gray-600 hover:text-gray-900 transition-colors'',
     main = ''pt-20 max-w-4xl mx-auto px-4 py-8'',
     sidebar = None,
     content = None,
     title = ''text-3xl font-light mb-6 text-gray-800'',
     paragraph' = ''text-base leading-relaxed mb-6 text-gray-600'',
     button = ''px-6 py-3 bg-blue-600 text-white rounded-lg hover:bg-blue-700 transition-colors font-medium'',
     card' = ''bg-white p-6 rounded-lg shadow-sm border border-gray-200 mb-4'',
     productGrid = ''grid grid-cols-1 md:grid-cols-2 lg:grid-cols-3 gap-6 mt-8'',
     productCard = ''bg-white p-4 rounded-lg shadow-sm border border-gray-200 hover:shadow-md transition-shadow''
     \<rparr>"

definition theme2Styles :: ThemeStyles where
  "theme2Styles =
     \<lparr>
     container = ''min-h-screen bg-gray-900 text-gray-100 font-serif '' @ baseTransition,
     header = ''fixed top-0 w-full bg-gray-800 shadow-lg border-b border-gray-700 z-50 '' @ baseTransition,
     headerContent = ''max-w-6xl mx-auto px-4 py-4 flex justify-between items-center'',
     logo = ''text-2xl font-bold text-yellow-400'',
     dropdown = ''relative'',
     dropdownButton = ''flex items-center space-x-2 px-4 py-2 bg-gray-700 rounded-lg hover:bg-gray-600 transition-colors text-gray-100'',
     dropdownMenu = ''absolute right-0 mt-2 w-48 bg-gray-800 rounded-lg shadow-xl border border-gray-600 py-2'',
     nav = ''flex space-x-6'',
     navButton = ''flex items-center space-x-2 px-3 py-2 text-gray-300 hover:text-yellow-400 transition-colors'',
     main = ''pt-20 flex'',
     sidebar = Some ''w-64 bg-gray-800 min-h-screen p-6 fixed left-0 top-20'',
     content = Some ''ml-64 flex-1 p-8'',
     title = ''text-4xl font-bold mb-8 text-yellow-400'',
     paragraph' = ''text-lg leading-relaxed mb-8 text-gray-300 font-light'',
     button = ''px-8 py-4 bg-yellow-600 text-gray-900 rounded-lg hover:bg-yellow-500 transition-colors font-bold text-lg'',
     card' = ''bg-gray-800 p-8 rounded-xl shadow-xl border border-gray-700 mb-6'',
     productGrid = ''grid grid-cols-1 lg:grid-cols-2 gap-8 mt-8'',
     productCard = ''bg-gray-800 p-6 rounded-xl shadow-xl border border-gray-700 hover:border-yellow-600 transition-colors''
     \<rparr>"

definition theme3Styles :: ThemeStyles where
  "theme3Styles =
     \<lparr>
     container = ''min-h-screen bg-gradient-to-br from-pink-100 via-purple-50 to-indigo-100 text-gray-800 '' @ baseTransition,
     header = ''fixed top-0 w-full bg-white/80 backdrop-blur-md shadow-lg border-b border-pink-200 z-50 '' @ baseTransition,
     headerContent = ''max-w-6xl mx-auto px-4 py-4 flex justify-between items-center'',
     logo = ''text-2xl font-bold bg-gradient-to-r from-pink-500 to-purple-600 bg-clip-text text-transparent'',
     dropdown = ''relative'',
     dropdownButton = ''flex items-center space-x-2 px-4 py-2 bg-gradient-to-r from-pink-500 to-purple-600 text-white rounded-full hover:from-pink-600 hover:to-purple-700 transition-all shadow-lg'',
     dropdownMenu = ''absolute right-0 mt-2 w-48 bg-white/90 backdrop-blur-md rounded-2xl shadow-xl border border-pink-200 py-2'',
     nav = ''flex space-x-4'',
     navButton = ''flex items-center space-x-2 px-4 py-2 text-purple-600 hover:bg-purple-100 rounded-full transition-colors'',
     main = ''pt-20 max-w-6xl mx-auto px-4 py-8'',
     sidebar = None,
     content = None,
     title = ''text-5xl font-bold mb-8 bg-gradient-to-r from-pink-500 via-purple-500 to-indigo-500 bg-clip-text text-transparent text-center'',
     paragraph' = ''text-lg leading-relaxed mb-8 text-center max-w-2xl mx-auto text-gray-700'',
     button = ''px-8 py-4 bg-gradient-to-r from-pink-500 to-purple-600 text-white rounded-full hover:from-pink-600 hover:to-purple-700 transition-all shadow-lg font-bold text-lg transform hover:scale-105'',
     card' = ''bg-white/60 backdrop-blur-md p-8 rounded-3xl shadow-xl border border-white/50 mb-6 hover:bg-white/70 transition-all'',
     productGrid = ''grid grid-cols-1 md:grid-cols-2 xl:grid-cols-4 gap-6 mt-12'',
     productCard = ''bg-white/70 backdrop-blur-md p-6 rounded-3xl shadow-xl border border-white/50 hover:shadow-2xl hover:scale-105 transition-all duration-300''
     \<rparr>"

text \<open>
  \<open>getThemeStyles\<close> (lines 106 to 175). The \<open>switch\<close> compares the run-time string with
  the three literals in turn; the \<open>default\<close> branch calls the function again at
  \<open>'theme1'\<close>.
\<close>

function getThemeStyles :: "ThemeType \<Rightarrow> ThemeStyles" where
  "getThemeStyles theme =
     (if theme = ''theme1'' then theme1Styles
      else if theme = ''theme2'' then theme2Styles
      else if theme = ''theme3'' then theme3Styles
      else getThemeStyles ''theme1'')"
  by pat_completeness auto
termination
  by (relation "measure (\<lambda>theme. if theme = ''theme1'' then 0 else 1)") auto

declare getThemeStyles.simps [simp del]

section \<open>The product hook\<close>

text \<open>
  What \<open>useProducts\<close> (lines 249 to 272) holds: three state cells, initially
  \<^verbatim>\<open>useState<Product[]>([])\<close>, \<^verbatim>\<open>useState(true)\<close> and \<^verbatim>\<open>useState<string | null>(null)\<close>.
\<close>

record 'n products_state =
  products :: "'n Product list"
  loading :: bool
  error :: "string option"

definition initialProducts :: "'n products_state" where
  "initialProducts = \<lparr>products = [], loading = True, error = None\<rparr>"

text \<open>
  A value that \<open>fetch\<close> or \<open>response.json()\<close> rejects with, as the \<open>catch\<close> clause
  tells them apart: an \<open>Error\<close> with its message, or anything else.
\<close>

datatype thrown = Error string | NotError

text \<open>
  How the one request ends: \<open>fetch\<close> rejects, or it resolves to a response with its
  \<open>ok\<close> flag and the outcome of \<open>response.json()\<close>, a rejection or the parsed data.
\<close>

datatype 'n fetch_outcome = Rejected thrown | Response bool "thrown + 'n Product list"

text \<open>
  The \<open>try\<close> block (lines 257 to 260): \<open>Inl\<close> is the value thrown, \<open>Inr\<close> the state
  after \<open>setProducts(data)\<close>.
\<close>

definition tryFetch :: "'n fetch_outcome \<Rightarrow> 'n products_state \<Rightarrow> thrown + 'n products_state" where
  "tryFetch outcome st =
     (case outcome of
        Rejected err \<Rightarrow> Inl err
      | Response ok body \<Rightarrow>
          if \<not> ok then Inl (Error ''Failed to fetch products'')
          else (case body of
                  Inl err \<Rightarrow> Inl err
                | Inr data \<Rightarrow> Inr (st\<lparr>products := data\<rparr>)))"

text \<open>
  What the \<open>catch\<close> clause stores (line 262):
  \<^verbatim>\<open>err instanceof Error ? err.message : 'An error occurred'\<close>.
\<close>

definition catchMessage :: "thrown \<Rightarrow> string" where
  "catchMessage err = (case err of Error message \<Rightarrow> message | NotError \<Rightarrow> ''An error occurred'')"

text \<open>
  \<open>fetchProducts\<close> (lines 255 to 266): the \<open>catch\<close> clause sets \<open>error\<close>, and the
  \<open>finally\<close> clause clears \<open>loading\<close> on both paths.
\<close>

definition fetchProducts :: "'n fetch_outcome \<Rightarrow> 'n products_state \<Rightarrow> 'n products_state" where
  "fetchProducts outcome st =
     (let st' = (case tryFetch outcome st of
                   Inl err \<Rightarrow> st\<lparr>error := Some (catchMessage err)\<rparr>
                 | Inr st'' \<Rightarrow> st'')
      in st'\<lparr>loading := False\<rparr>)"

text \<open>
  The effect has no dependencies, so it runs once per mount of the home page: the hook
  yields \<open>initialProducts\<close> until the request settles and \<open>useProducts\<close> of its outcome
  afterwards.
\<close>

definition useProducts :: "'n fetch_outcome \<Rightarrow> 'n products_state" where
  "useProducts outcome = fetchProducts outcome initialProducts"

section \<open>The widget tree\<close>

text \<open>
  A rendered element tree. An element has a tag (an HTML tag or the name of a
  component), its props in the order written (the \<open>key\<close> among them) and its children;
  a child can also be a string or a number. A prop value is a string, a numeric
  literal of the source, or a number taken from a product. A child that is \<open>false\<close>,
  \<open>null\<close> or the empty string renders nothing and is left out of the children, a
  fragment stands for its children, and a prop whose value is \<open>undefined\<close> is left out
  of the props.
\<close>

datatype 'n jsval = Str string | Lit nat | Num 'n

datatype 'n node = Elem string "(string \<times> 'n jsval) list" "'n node list" | Txt string | Number 'n

definition cls :: "string \<Rightarrow> (string \<times> 'n jsval) list" where
  "cls c = [(''className'', Str c)]"

definition clsOpt :: "string option \<Rightarrow> (string \<times> 'n jsval) list" where
  "clsOpt c = (case c of None \<Rightarrow> [] | Some s \<Rightarrow> [(''className'', Str s)])"

text \<open>
  \<open>{s}\<close> as a child, for \<open>s\<close> a string: the empty string renders nothing. (The
  error paragraphs of the home page place \<open>{error}\<close> under a guard that has already
  excluded the empty string.)
\<close>

definition textChild :: "string \<Rightarrow> 'n node list" where
  "textChild s = (if s = [] then [] else [Txt s])"

text \<open>\<open>{flag && element}\<close> as a child.\<close>

definition whenTrue :: "bool \<Rightarrow> 'n node \<Rightarrow> 'n node list" where
  "whenTrue flag element = (if flag then [element] else [])"

text \<open>
  \<open>{error && element}\<close> as a child, for \<open>error\<close> a string or \<open>null\<close>: \<open>null\<close> and the
  empty string are falsy.
\<close>

definition whenString :: "string option \<Rightarrow> (string \<Rightarrow> 'n node) \<Rightarrow> 'n node list" where
  "whenString s element =
     (case s of None \<Rightarrow> [] | Some e \<Rightarrow> if e = [] then [] else [element e])"

text \<open>\<open>ProductCard\<close> (lines 275 to 297), for the theme of the context.\<close>

definition ProductCard :: "ThemeType \<Rightarrow> 'n Product \<Rightarrow> 'n node" where
  "ProductCard theme product =
     (let styles = getThemeStyles theme in
      Elem ''div'' (cls (productCard styles))
        [Elem ''img''
           [(''src'', Str (image' product)), (''alt'', Str (Product.title product)),
            (''className'', Str ''w-full h-48 object-contain mb-4 rounded-lg'')] [],
         Elem ''h3'' (cls ''font-bold text-lg mb-2 line-clamp-2'')
           (textChild (Product.title product)),
         Elem ''p'' (cls ''text-sm opacity-75 mb-3 line-clamp-2'')
           (textChild (description product)),
         Elem ''div'' (cls ''flex justify-between items-center'')
           [Elem ''span'' (cls ''text-xl font-bold'') [Txt ''$'', Number (price product)],
            Elem ''div'' (cls ''flex items-center space-x-1'')
              [Elem ''Star''
                 [(''size'', Lit 16), (''className'', Str ''fill-current text-yellow-500'')] [],
               Elem ''span'' (cls ''text-sm'') [Number (rate (rating product))]]]])"

text \<open>
  \<^verbatim>\<open><ProductCard key={product.id} product={product} />\<close>: the component element with
  its key, over what the component renders.
\<close>

definition productCardElement :: "ThemeType \<Rightarrow> 'n Product \<Rightarrow> 'n node" where
  "productCardElement theme product =
     Elem ''ProductCard'' [(''key'', Num (id' product))] [ProductCard theme product]"

text \<open>One entry of a sidebar list: \<^verbatim>\<open><li key={item}><button className="...">{item}</button></li>\<close>.\<close>

definition sidebarItem :: "string \<Rightarrow> 'n node" where
  "sidebarItem item =
     Elem ''li'' [(''key'', Str item)]
       [Elem ''button''
          (cls ''w-full text-left px-3 py-2 text-gray-300 hover:text-yellow-400 hover:bg-gray-700 rounded transition-colors'')
          (textChild item)]"

text \<open>The sidebar of the three pages: a heading and a fixed list of labels.\<close>

definition sidebarRegion :: "ThemeStyles \<Rightarrow> string \<Rightarrow> string list \<Rightarrow> 'n node" where
  "sidebarRegion styles heading labels =
     Elem ''div'' (clsOpt (sidebar styles))
       [Elem ''h3'' (cls ''text-xl font-bold mb-4 text-yellow-400'') [Txt heading],
        Elem ''ul'' (cls ''space-y-2'') (map sidebarItem labels)]"

text \<open>
  \<open>HomePage\<close> (lines 300 to 368), for the theme of the context and the state of its
  product hook.
\<close>

definition HomePage :: "ThemeType \<Rightarrow> 'n products_state \<Rightarrow> 'n node" where
  "HomePage theme st =
     (let styles = getThemeStyles theme in
      if theme = ''theme2'' then
        Elem ''div'' (cls (main styles))
          [sidebarRegion styles ''Categories''
             [''Electronics'', ''Clothing'', ''Books'', ''Home & Garden''],
           Elem ''div'' (clsOpt (content styles))
             [Elem ''h1'' (cls (title styles)) [Txt ''Welcome to ThemeStore''],
              Elem ''p'' (cls (paragraph' styles))
                [Txt ''Experience the power of dynamic theming with our multi-theme switcher application. This dark theme features a bold sidebar layout with serif typography for a sophisticated reading experience.''],
              Elem ''button'' (cls (button styles)) [Txt ''Explore Products''],
              Elem ''div'' (cls (card' styles))
                ([Elem ''h2'' (cls ''text-2xl font-bold mb-4 text-yellow-400'')
                    [Txt ''Featured Products'']]
                 @ whenTrue (loading st) (Elem ''p'' [] [Txt ''Loading products...''])
                 @ whenString (error st)
                     (\<lambda>e. Elem ''p'' (cls ''text-red-400'') [Txt ''Error: '', Txt e])
                 @ [Elem ''div'' (cls (productGrid styles))
                      (map (productCardElement theme) (products st))])]]
      else
        Elem ''main'' (cls (main styles))
          [Elem ''h1'' (cls (title styles)) [Txt ''Welcome to ThemeStore''],
           Elem ''p'' (cls (paragraph' styles))
             [Txt ''Experience the power of dynamic theming with our multi-theme switcher application. Switch between different themes to see how layout, typography, and colors transform the entire user experience.''],
           Elem ''div'' (cls ''text-center mb-8'')
             [Elem ''button'' (cls (button styles)) [Txt ''Explore Products'']],
           Elem ''div'' (cls (card' styles))
             ([Elem ''h2''
                 (cls (''text-2xl font-bold mb-6 '' @
                       (if theme = ''theme3''
                        then ''text-center bg-gradient-to-r from-pink-500 to-purple-600 bg-clip-text text-transparent''
                        else '''')))
                 [Txt ''Featured Products'']]
              @ whenTrue (loading st) (Elem ''p'' (cls ''text-center'') [Txt ''Loading products...''])
              @ whenString (error st)
                  (\<lambda>e. Elem ''p'' (cls ''text-red-500 text-center'') [Txt ''Error: '', Txt e])
              @ [Elem ''div'' (cls (productGrid styles))
                   (map (productCardElement theme) (products st))])])"

text \<open>The character U+2022 that starts the list entries of the about page, as UTF-8.\<close>

definition bullet :: string where
  "bullet = [CHR 0xE2, CHR 0x80, CHR 0xA2]"

text \<open>The fragment \<open>content\<close> of \<open>AboutPage\<close> (lines 375 to 404).\<close>

definition aboutContent :: "ThemeStyles \<Rightarrow> 'n node list" where
  "aboutContent styles =
     [Elem ''h1'' (cls (title styles)) [Txt ''About ThemeStore''],
      Elem ''p'' (cls (paragraph' styles))
        [Txt ''ThemeStore is a demonstration of advanced React theming capabilities. Built with TypeScript, Context API, and modern React patterns, this application showcases how different themes can completely transform user experience.''],
      Elem ''div'' (cls (card' styles))
        [Elem ''h2'' (cls ''text-2xl font-bold mb-4'') [Txt ''Technologies Used''],
         Elem ''ul'' (cls ''space-y-2'')
           [Elem ''li'' [] [Txt (bullet @ '' React 18 with TypeScript'')],
            Elem ''li'' [] [Txt (bullet @ '' Context API for state management'')],
            Elem ''li'' [] [Txt (bullet @ '' Tailwind CSS for styling'')],
            Elem ''li'' [] [Txt (bullet @ '' FakeStore API integration'')],
            Elem ''li'' [] [Txt (bullet @ '' LocalStorage for persistence'')],
            Elem ''li'' [] [Txt (bullet @ '' Responsive design patterns'')]]],
      Elem ''div'' (cls (card' styles))
        [Elem ''h2'' (cls ''text-2xl font-bold mb-4'') [Txt ''Theme Features''],
         Elem ''p'' (cls ''mb-4'') [Txt ''Each theme offers unique characteristics:''],
         Elem ''ul'' (cls ''space-y-2'')
           [Elem ''li'' []
              [Txt (bullet @ '' ''), Elem ''strong'' [] [Txt ''Theme 1:''],
               Txt '' Clean minimalist design with light colors''],
            Elem ''li'' []
              [Txt (bullet @ '' ''), Elem ''strong'' [] [Txt ''Theme 2:''],
               Txt '' Dark mode with sidebar navigation''],
            Elem ''li'' []
              [Txt (bullet @ '' ''), Elem ''strong'' [] [Txt ''Theme 3:''],
               Txt '' Vibrant gradients with playful animations'']]]]"

text \<open>\<open>AboutPage\<close> (lines 371 to 429).\<close>

definition AboutPage :: "ThemeType \<Rightarrow> 'n node" where
  "AboutPage theme =
     (let styles = getThemeStyles theme in
      if theme = ''theme2'' then
        Elem ''div'' (cls (main styles))
          [sidebarRegion styles ''Navigation'' [''Company'', ''Team'', ''Mission'', ''Values''],
           Elem ''div'' (clsOpt (content styles)) (aboutContent styles)]
      else Elem ''main'' (cls (main styles)) (aboutContent styles))"

text \<open>The fragment \<open>content\<close> of \<open>ContactPage\<close> (lines 436 to 479).\<close>

definition contactContent :: "ThemeStyles \<Rightarrow> 'n node list" where
  "contactContent styles =
     [Elem ''h1'' (cls (title styles)) [Txt ''Contact Us''],
      Elem ''p'' (cls (paragraph' styles))
        [Txt ''Get in touch with our team for any questions, feedback, or collaboration opportunities.''],
      Elem ''div'' (cls (card' styles))
        [Elem ''h2'' (cls ''text-2xl font-bold mb-4'') [Txt ''Contact Information''],
         Elem ''div'' (cls ''space-y-4'')
           [Elem ''div'' (cls ''flex items-center space-x-3'')
              [Elem ''Mail'' [(''size'', Lit 20)] [],
               Elem ''span'' [] [Txt ''contact@themestore.com'']],
            Elem ''div'' (cls ''flex items-center space-x-3'')
              [Elem ''User'' [(''size'', Lit 20)] [],
               Elem ''span'' [] [Txt ''+1 (555) 123-4567'']]]],
      Elem ''div'' (cls (card' styles))
        [Elem ''h2'' (cls ''text-2xl font-bold mb-4'') [Txt ''Send Message''],
         Elem ''div'' (cls ''space-y-4'')
           [Elem ''input''
              [(''type'', Str ''text''), (''placeholder'', Str ''Your Name''),
               (''className'', Str ''w-full p-3 rounded-lg border border-gray-300 focus:outline-none focus:ring-2 focus:ring-blue-500'')] [],
            Elem ''input''
              [(''type'', Str ''email''), (''placeholder'', Str ''Your Email''),
               (''className'', Str ''w-full p-3 rounded-lg border border-gray-300 focus:outline-none focus:ring-2 focus:ring-blue-500'')] [],
            Elem ''textarea''
              [(''placeholder'', Str ''Your Message''), (''rows'', Lit 4),
               (''className'', Str ''w-full p-3 rounded-lg border border-gray-300 focus:outline-none focus:ring-2 focus:ring-blue-500 resize-none'')] [],
            Elem ''button'' [(''type'', Str ''button''), (''className'', Str (button styles))]
              [Txt ''Send Message'']]]]"

text \<open>\<open>ContactPage\<close> (lines 432 to 504).\<close>

definition ContactPage :: "ThemeType \<Rightarrow> 'n node" where
  "ContactPage theme =
     (let styles = getThemeStyles theme in
      if theme = ''theme2'' then
        Elem ''div'' (cls (main styles))
          [sidebarRegion styles ''Quick Links'' [''Support'', ''Sales'', ''Partnership'', ''Careers''],
           Elem ''div'' (clsOpt (content styles)) (contactContent styles)]
      else Elem ''main'' (cls (main styles)) (contactContent styles))"

text \<open>
  \<open>renderPage\<close> of \<open>AppContent\<close> (lines 522 to 531): the \<open>switch\<close> on the page cell. The
  state of the product hook belongs to the home page.
\<close>

definition renderPage :: "string \<Rightarrow> ThemeType \<Rightarrow> 'n products_state \<Rightarrow> 'n node" where
  "renderPage page theme st =
     (if page = ''about'' then AboutPage theme
      else if page = ''contact'' then ContactPage theme
      else HomePage theme st)"

section \<open>ThemeProvider and RouterProvider\<close>

text \<open>
  The two state cells of the providers, together with the store the theme effect
  writes to.
\<close>

record app_state =
  theme :: ThemeType
  currentPage :: string
  localStorage :: storage

text \<open>
  The effect of ThemeProvider (lines 43 to 45),
  \<^verbatim>\<open>useEffect(() => { localStorage.setItem('app-theme', theme); }, [theme])\<close>:
  it runs after the first render and after every render in which \<open>theme\<close> changed.
\<close>

definition themeEffect :: "app_state \<Rightarrow> app_state" where
  "themeEffect st = st\<lparr>localStorage := setItem (localStorage st) ''app-theme'' (theme st)\<rparr>"

text \<open>
  Mounting \<open>App\<close> over a given store: the theme cell is initialised from the store, the
  page cell with \<^verbatim>\<open>useState('home')\<close>, and the theme effect runs once.
\<close>

definition mount :: "storage \<Rightarrow> app_state" where
  "mount store =
     themeEffect \<lparr>theme = loadTheme store, currentPage = ''home'', localStorage = store\<rparr>"

text \<open>
  \<open>setTheme\<close> (the specification's \<open>selectTheme\<close>) is the setter of the theme cell. A
  setter called with the value the cell already holds changes nothing, and the effect,
  whose dependency \<open>[theme]\<close> is then unchanged, does not run; otherwise the cell is
  updated and the effect runs after the render.
\<close>

definition setTheme :: "ThemeType \<Rightarrow> app_state \<Rightarrow> app_state" where
  "setTheme x st = (if x = theme st then st else themeEffect (st\<lparr>theme := x\<rparr>))"

text \<open>\<^verbatim>\<open>const navigate = (page: string) => { setCurrentPage(page); }\<close> (lines 73 to 75).\<close>

definition navigate :: "string \<Rightarrow> app_state \<Rightarrow> app_state" where
  "navigate page st = st\<lparr>currentPage := page\<rparr>"

text \<open>User interaction: a sequence of theme picks and navigation clicks.\<close>

datatype action = SetTheme ThemeType | Navigate string

fun step :: "app_state \<Rightarrow> action \<Rightarrow> app_state" where
  "step st (SetTheme x) = setTheme x st"
| "step st (Navigate p) = navigate p st"

definition run :: "storage \<Rightarrow> action list \<Rightarrow> app_state" where
  "run store acts = foldl step (mount store) acts"

text \<open>A state is \<open>persisted\<close> when the store holds the theme of the theme cell.\<close>

definition persisted :: "app_state \<Rightarrow> bool" where
  "persisted st = (getItem (localStorage st) ''app-theme'' = Some (theme st))"

text \<open>What the page area shows in a state of the application.\<close>

definition view :: "app_state \<Rightarrow> 'n products_state \<Rightarrow> 'n node" where
  "view app st = renderPage (currentPage app) (theme app) st"

section \<open>Reading a widget tree\<close>

text \<open>An element and everything below it, in document order.\<close>

fun nodes :: "'n node \<Rightarrow> 'n node list" where
  "nodes (Elem t ps cs) = Elem t ps cs # concat (map nodes cs)"
| "nodes (Txt s) = [Txt s]"
| "nodes (Number n) = [Number n]"

fun tag :: "'n node \<Rightarrow> string option" where
  "tag (Elem t ps cs) = Some t"
| "tag (Txt s) = None"
| "tag (Number n) = None"

fun children :: "'n node \<Rightarrow> 'n node list" where
  "children (Elem t ps cs) = cs"
| "children (Txt s) = []"
| "children (Number n) = []"

fun className :: "'n node \<Rightarrow> 'n jsval option" where
  "className (Elem t ps cs) = map_of ps ''className''"
| "className (Txt s) = None"
| "className (Number n) = None"

text \<open>The elements of a tree that carry a given class name.\<close>

definition byClass :: "string \<Rightarrow> 'n node \<Rightarrow> 'n node list" where
  "byClass c n = filter (\<lambda>m. className m = Some (Str c)) (nodes n)"

text \<open>The component elements of a given name in a tree.\<close>

definition byTag :: "string \<Rightarrow> 'n node \<Rightarrow> 'n node list" where
  "byTag t n = filter (\<lambda>m. tag m = Some t) (nodes n)"

text \<open>
  The message an error paragraph of the home page shows:
  \<^verbatim>\<open><p className="...">Error: {error}</p>\<close> (lines 331 and 359).
\<close>

fun errorText :: "'n node \<Rightarrow> string option" where
  "errorText (Elem t ps [Txt a, Txt e]) = (if t = ''p'' \<and> a = ''Error: '' then Some e else None)"
| "errorText n = None"

definition errorMessages :: "'n node \<Rightarrow> string list" where
  "errorMessages n =
     concat (map (\<lambda>m. case errorText m of None \<Rightarrow> [] | Some e \<Rightarrow> [e]) (nodes n))"

text \<open>A prop of an element, the \<open>key\<close> included.\<close>

fun getProp :: "string \<Rightarrow> 'n node \<Rightarrow> 'n jsval option" where
  "getProp k (Elem t ps cs) = map_of ps k"
| "getProp k (Txt s) = None"
| "getProp k (Number n) = None"

text \<open>
  What a tree displays as text: its string and number children, in document order.
\<close>

fun leaves :: "'n node \<Rightarrow> (string + 'n) list" where
  "leaves (Elem t ps cs) = concat (map leaves cs)"
| "leaves (Txt s) = [Inl s]"
| "leaves (Number n) = [Inr n]"


section \<open>Store and state lemmas\<close>

lemma getItem_setItem_same: "getItem (setItem s k v) k = Some v"
  by (induction s) auto

lemma getItem_setItem_other: "k' \<noteq> k \<Longrightarrow> getItem (setItem s k v) k' = getItem s k'"
  by (induction s) auto

lemma persisted_themeEffect: "persisted (themeEffect st)"
  by (simp add: persisted_def themeEffect_def getItem_setItem_same)

lemma persisted_mount: "persisted (mount store)"
  unfolding mount_def by (rule persisted_themeEffect)

lemma persisted_setTheme: "persisted st \<Longrightarrow> persisted (setTheme x st)"
  by (simp add: setTheme_def persisted_themeEffect)

lemma persisted_navigate: "persisted st \<Longrightarrow> persisted (navigate p st)"
  by (simp add: navigate_def persisted_def)

lemma persisted_step: "persisted st \<Longrightarrow> persisted (step st a)"
  by (cases a) (simp_all add: persisted_setTheme persisted_navigate)

lemma persisted_foldl: "persisted st \<Longrightarrow> persisted (foldl step st acts)"
  by (induction acts arbitrary: st) (simp_all add: persisted_step)

lemma persisted_run: "persisted (run store acts)"
  unfolding run_def by (rule persisted_foldl [OF persisted_mount])

lemma theme_setTheme: "theme (setTheme x st) = x"
  by (simp add: setTheme_def themeEffect_def)

lemma loadTheme_persisted: "persisted st \<Longrightarrow> theme st \<noteq> [] \<Longrightarrow> loadTheme (localStorage st) = theme st"
  by (simp add: persisted_def loadTheme_def)

section \<open>The style bundles, evaluated\<close>

lemmas bundle_defs = theme1Styles_def theme2Styles_def theme3Styles_def baseTransition_def

lemma getThemeStyles_theme1: "getThemeStyles ''theme1'' = theme1Styles"
  by (simp add: getThemeStyles.simps)

lemma getThemeStyles_theme2: "getThemeStyles ''theme2'' = theme2Styles"
  by (simp add: getThemeStyles.simps)

lemma getThemeStyles_theme3: "getThemeStyles ''theme3'' = theme3Styles"
  by (simp add: getThemeStyles.simps)

lemma getThemeStyles_fallback:
  "t \<noteq> ''theme1'' \<Longrightarrow> t \<noteq> ''theme2'' \<Longrightarrow> t \<noteq> ''theme3'' \<Longrightarrow> getThemeStyles t = theme1Styles"
  by (simp add: getThemeStyles.simps)

lemma getThemeStyles_other: "\<not> isThemeType t \<Longrightarrow> getThemeStyles t = getThemeStyles ''theme1''"
  by (subst getThemeStyles.simps) (simp add: isThemeType_def)

text \<open>The recursion of \<open>getThemeStyles\<close> ends: at \<open>'theme1'\<close> there is no further call.\<close>

lemma getThemeStyles_dom_theme1: "getThemeStyles_dom ''theme1''"
  by (rule accpI) (erule getThemeStyles_rel.cases, simp)

lemma getThemeStyles_dom_all: "getThemeStyles_dom t"
  by (rule accpI) (erule getThemeStyles_rel.cases, simp add: getThemeStyles_dom_theme1)

lemma theme_cases:
  obtains "t = ''theme1''" | "t = ''theme2''" | "t = ''theme3''"
  | "t \<noteq> ''theme1''" "t \<noteq> ''theme2''" "t \<noteq> ''theme3''"
  by blast

section \<open>Reading the pages\<close>

lemma byTag_Elem:
  "byTag x (Elem t ps cs) = (if t = x then [Elem t ps cs] else []) @ concat (map (byTag x) cs)"
  unfolding byTag_def by (simp add: filter_concat comp_def)

lemma byTag_Txt: "byTag x (Txt s) = []"
  by (simp add: byTag_def)

lemma byTag_Number: "byTag x (Number n) = []"
  by (simp add: byTag_def)

lemmas byTag_simps = byTag_Elem byTag_Txt byTag_Number

lemma byClass_Elem:
  "byClass c (Elem t ps cs) =
     (if map_of ps ''className'' = Some (Str c) then [Elem t ps cs] else [])
     @ concat (map (byClass c) cs)"
  unfolding byClass_def by (simp add: filter_concat comp_def)

lemma byClass_Txt: "byClass c (Txt s) = []"
  by (simp add: byClass_def)

lemma byClass_Number: "byClass c (Number n) = []"
  by (simp add: byClass_def)

lemmas byClass_simps = byClass_Elem byClass_Txt byClass_Number

lemmas page_defs = HomePage_def Let_def sidebarRegion_def sidebarItem_def cls_def clsOpt_def
  whenTrue_def whenString_def textChild_def

lemma useProducts_success:
  "useProducts (Response True (Inr ps)) = \<lparr>products = ps, loading = False, error = None\<rparr>"
  by (simp add: useProducts_def fetchProducts_def tryFetch_def initialProducts_def)

lemma byTag_productCardElement:
  "byTag ''ProductCard'' (productCardElement t p) = [productCardElement t p]"
  by (simp add: productCardElement_def ProductCard_def Let_def cls_def textChild_def byTag_simps)

lemma byTag_cards:
  "concat (map (byTag ''ProductCard'' \<circ> productCardElement t) ps) = map (productCardElement t) ps"
  by (induction ps) (simp_all add: byTag_productCardElement)

lemma cards_of_home:
  "byTag ''ProductCard'' (HomePage t (useProducts (Response True (Inr ps))))
     = map (productCardElement t) ps"
  by (simp add: useProducts_success page_defs byTag_simps byTag_cards)

text \<open>The class names inside a product card are its own token and eight fixed ones.\<close>

lemma byClass_productCardElement:
  "c \<noteq> productCard (getThemeStyles t) \<Longrightarrow>
   c \<notin> {''w-full h-48 object-contain mb-4 rounded-lg'', ''font-bold text-lg mb-2 line-clamp-2'',
        ''text-sm opacity-75 mb-3 line-clamp-2'', ''flex justify-between items-center'',
        ''text-xl font-bold'', ''flex items-center space-x-1'', ''fill-current text-yellow-500'',
        ''text-sm''} \<Longrightarrow>
   byClass c (productCardElement t p) = []"
  by (auto simp add: productCardElement_def ProductCard_def Let_def cls_def textChild_def
        byClass_simps)

lemma byClass_cards:
  assumes "\<And>p :: 'n Product. byClass c (productCardElement t p) = []"
  shows "concat (map (byClass c \<circ> productCardElement t) (ps :: 'n Product list)) = []"
  using assms by (induction ps) auto

lemma grid_cards:
  "concat (map (byClass (productGrid (getThemeStyles t)) \<circ> productCardElement t) ps) = []"
proof (rule byClass_cards, rule byClass_productCardElement)
  show "productGrid (getThemeStyles t) \<noteq> productCard (getThemeStyles t)"
    by (cases t rule: theme_cases)
       (simp_all add: getThemeStyles_theme1 getThemeStyles_theme2 getThemeStyles_theme3
          getThemeStyles_fallback bundle_defs)
  show "productGrid (getThemeStyles t) \<notin>
      {''w-full h-48 object-contain mb-4 rounded-lg'', ''font-bold text-lg mb-2 line-clamp-2'',
        ''text-sm opacity-75 mb-3 line-clamp-2'', ''flex justify-between items-center'',
        ''text-xl font-bold'', ''flex items-center space-x-1'', ''fill-current text-yellow-500'',
        ''text-sm''}"
    by (cases t rule: theme_cases)
       (simp_all add: getThemeStyles_theme1 getThemeStyles_theme2 getThemeStyles_theme3
          getThemeStyles_fallback bundle_defs)
qed

lemma grid_of_home:
  "byClass (productGrid (getThemeStyles t)) (HomePage t (useProducts (Response True (Inr ps))))
     = [Elem ''div'' (cls (productGrid (getThemeStyles t))) (map (productCardElement t) ps)]"
proof (cases t rule: theme_cases)
  case 1
  show ?thesis
    unfolding 1 using grid_cards [of "''theme1''" ps]
    by (simp add: useProducts_success page_defs byClass_simps getThemeStyles_theme1 bundle_defs)
next
  case 2
  show ?thesis
    unfolding 2 using grid_cards [of "''theme2''" ps]
    by (simp add: useProducts_success page_defs byClass_simps getThemeStyles_theme2 bundle_defs)
next
  case 3
  show ?thesis
    unfolding 3 using grid_cards [of "''theme3''" ps]
    by (simp add: useProducts_success page_defs byClass_simps getThemeStyles_theme3 bundle_defs)
next
  case 4
  then show ?thesis
    using grid_cards [of t ps]
    by (simp add: useProducts_success page_defs byClass_simps getThemeStyles_fallback bundle_defs)
qed

text \<open>What one product card shows of its product.\<close>

lemma key_of_card: "getProp ''key'' (productCardElement t p) = Some (Num (id' p))"
  by (simp add: productCardElement_def)

lemma img_of_card:
  "byTag ''img'' (productCardElement t p) =
     [Elem ''img''
        [(''src'', Str (image' p)), (''alt'', Str (Product.title p)),
         (''className'', Str ''w-full h-48 object-contain mb-4 rounded-lg'')] []]"
  by (simp add: productCardElement_def ProductCard_def Let_def cls_def textChild_def byTag_simps)

lemma leaves_of_card:
  "leaves (productCardElement t p) =
     (if Product.title p = [] then [] else [Inl (Product.title p)])
     @ (if description p = [] then [] else [Inl (description p)])
     @ [Inl ''$'', Inr (price p), Inr (rate (rating p))]"
  by (simp add: productCardElement_def ProductCard_def Let_def cls_def textChild_def)

section \<open>Loading the theme\<close>

text \<open>
  Claim C1, as amended. The claim says that an absent or unrecognised stored value makes
  \<open>loadTheme\<close> return \<open>'theme1'\<close>. The initializer substitutes the default only for a
  falsy value: an absent key or the empty string. What holds for every store: if the
  value is absent or empty, \<open>loadTheme\<close> returns \<open>'theme1'\<close>; and if the value is absent
  or not one of the three identifiers, the style bundle resolved for the loaded theme is
  the bundle of \<open>'theme1'\<close>.
\<close>

theorem loadTheme_default:
  "(getItem store ''app-theme'' = None \<or> getItem store ''app-theme'' = Some [] \<longrightarrow>
      loadTheme store = ''theme1'') \<and>
   ((\<forall>s. getItem store ''app-theme'' = Some s \<longrightarrow> \<not> isThemeType s) \<longrightarrow>
      getThemeStyles (loadTheme store) = getThemeStyles ''theme1'')"
proof (intro conjI impI)
  assume "getItem store ''app-theme'' = None \<or> getItem store ''app-theme'' = Some []"
  then show "loadTheme store = ''theme1''"
    by (auto simp add: loadTheme_def)
next
  assume bad: "\<forall>s. getItem store ''app-theme'' = Some s \<longrightarrow> \<not> isThemeType s"
  show "getThemeStyles (loadTheme store) = getThemeStyles ''theme1''"
  proof (cases "getItem store ''app-theme''")
    case None
    then show ?thesis by (simp add: loadTheme_def)
  next
    case (Some s)
    with bad have "\<not> isThemeType s" by simp
    then have fallback: "getThemeStyles s = getThemeStyles ''theme1''"
      by (rule getThemeStyles_other)
    from Some have "loadTheme store = s \<or> loadTheme store = ''theme1''"
      by (simp add: loadTheme_def)
    then show ?thesis
    proof
      assume "loadTheme store = s"
      then show ?thesis by (simp only: fallback)
    next
      assume "loadTheme store = ''theme1''"
      then show ?thesis by (simp only:)
    qed
  qed
qed

theorem loadTheme_default_witness:
  "loadTheme [] = ''theme1'' \<and>
   getThemeStyles (loadTheme [(''app-theme'', ''dark'')]) = getThemeStyles ''theme1''"
  using loadTheme_default [of "[]"] loadTheme_default [of "[(''app-theme'', ''dark'')]"]
  by (simp add: isThemeType_def)

text \<open>
  The claim as stated fails: the store holds \<open>'dark'\<close>, which is none of the three
  identifiers, and \<open>loadTheme\<close> does not return \<open>'theme1'\<close>.
\<close>

theorem loadTheme_unrecognised_counterexample:
  "\<not> isThemeType ''dark'' \<and> loadTheme [(''app-theme'', ''dark'')] \<noteq> ''theme1''"
  by (simp add: isThemeType_def loadTheme_def)

text \<open>
  Claim C10. A non-empty string stored under the theme key is returned as it is, whether
  or not it is one of the three identifiers; \<open>loadTheme\<close> returns \<open>'theme1'\<close> exactly when
  the key is absent, holds the empty string, or holds \<open>'theme1'\<close> itself.
\<close>

theorem loadTheme_verbatim:
  "(getItem store ''app-theme'' = Some s \<longrightarrow> s \<noteq> [] \<longrightarrow> loadTheme store = s) \<and>
   (loadTheme store = ''theme1'' \<longleftrightarrow>
      getItem store ''app-theme'' = None \<or> getItem store ''app-theme'' = Some [] \<or>
      getItem store ''app-theme'' = Some ''theme1'')"
  by (cases "getItem store ''app-theme''") (auto simp add: loadTheme_def)

theorem loadTheme_verbatim_witness:
  "\<not> isThemeType ''dark'' \<and>
   loadTheme [(''other'', ''x''), (''app-theme'', ''dark'')] = ''dark''"
  using loadTheme_verbatim [of "[(''other'', ''x''), (''app-theme'', ''dark'')]" "''dark''"]
  by (simp add: isThemeType_def)

section \<open>The two state cells\<close>

text \<open>
  Claim C8. In every state the application reaches (mounted over any store, after any
  sequence of theme picks and navigations), picking one of the three themes \<open>x\<close> leaves
  \<open>x\<close> in the store, and \<open>loadTheme\<close> on that store returns \<open>x\<close>.
\<close>

theorem setTheme_loadTheme_roundtrip:
  "isThemeType x \<Longrightarrow>
   getItem (localStorage (setTheme x (run store acts))) ''app-theme'' = Some x \<and>
   loadTheme (localStorage (setTheme x (run store acts))) = x"
proof -
  assume x: "isThemeType x"
  let ?st = "setTheme x (run store acts)"
  have p: "persisted ?st"
    by (rule persisted_setTheme [OF persisted_run])
  have t: "theme ?st = x"
    by (rule theme_setTheme)
  from x have ne: "x \<noteq> []"
    by (auto simp add: isThemeType_def)
  from p t have "getItem (localStorage ?st) ''app-theme'' = Some x"
    by (simp add: persisted_def)
  moreover from p t ne have "loadTheme (localStorage ?st) = x"
    by (simp add: loadTheme_persisted)
  ultimately show ?thesis by simp
qed

theorem setTheme_loadTheme_roundtrip_witness:
  "isThemeType ''theme3'' \<and>
   loadTheme (localStorage (setTheme ''theme3''
      (run [(''app-theme'', ''theme2'')] [Navigate ''about'', SetTheme ''theme1'']))) = ''theme3''"
  using setTheme_loadTheme_roundtrip
    [of "''theme3''" "[(''app-theme'', ''theme2'')]" "[Navigate ''about'', SetTheme ''theme1'']"]
  by (simp add: isThemeType_def)

text \<open>
  Claim C9. Picking a theme leaves the page cell as it was; navigating leaves the theme
  cell and the store as they were.
\<close>

theorem theme_page_independent:
  "currentPage (setTheme x st) = currentPage st \<and>
   theme (navigate p st) = theme st \<and>
   localStorage (navigate p st) = localStorage st"
  by (simp add: setTheme_def themeEffect_def navigate_def)

theorem theme_page_independent_witness:
  "currentPage (setTheme ''theme2'' (mount [])) = ''home'' \<and>
   theme (navigate ''about'' (mount [])) = ''theme1'' \<and>
   localStorage (navigate ''about'' (mount [])) = [(''app-theme'', ''theme1'')]"
  using theme_page_independent [of "''theme2''" "mount []" "''about''"]
  by (simp add: mount_def themeEffect_def loadTheme_def)

text \<open>
  Claim C5. \<open>navigate\<close> stores any string in the page cell; when the string is neither
  \<open>'about'\<close> nor \<open>'contact'\<close> the page shown is the home page, as after
  \<open>navigate('about')\<close> followed by \<open>navigate('unknown-page')\<close>.
\<close>

theorem navigate_unconditional:
  "currentPage (navigate p st) = p \<and>
   (p \<noteq> ''about'' \<and> p \<noteq> ''contact'' \<longrightarrow>
      view (navigate p st) ps = HomePage (theme st) ps) \<and>
   view (navigate ''unknown-page'' (navigate ''about'' st)) ps = HomePage (theme st) ps"
  by (simp add: navigate_def view_def renderPage_def)

theorem navigate_unconditional_witness:
  "currentPage (navigate ''unknown-page'' (mount [])) = ''unknown-page'' \<and>
   view (navigate ''unknown-page'' (mount [])) (initialProducts :: nat products_state)
     = HomePage (theme (mount [])) initialProducts"
  using navigate_unconditional
    [of "''unknown-page''" "mount []" "initialProducts :: nat products_state"]
  by simp

section \<open>The theme registry\<close>

text \<open>
  Claim C6. \<open>getThemeStyles\<close> is total: its recursion ends on every input, and for an
  input that is none of the three identifiers it returns the bundle of \<open>'theme1'\<close>. It is
  a function of its argument alone: it reads and writes no state.
\<close>

theorem getThemeStyles_total:
  "getThemeStyles_dom t \<and>
   (\<not> isThemeType t \<longrightarrow> getThemeStyles t = getThemeStyles ''theme1'')"
  by (intro conjI impI) (rule getThemeStyles_dom_all, erule getThemeStyles_other)

theorem getThemeStyles_total_witness:
  "\<not> isThemeType ''dark'' \<and> getThemeStyles ''dark'' = getThemeStyles ''theme1''"
  using getThemeStyles_total [of "''dark''"] by (simp add: isThemeType_def)

text \<open>
  Claim C7. For each of the three identifiers the bundle has a non-empty token for every
  required region (and for the other mandatory fields of the interface); the bundle of
  \<open>'theme2'\<close> defines non-empty \<open>sidebar\<close> and \<open>content\<close> tokens, and the bundles of
  \<open>'theme1'\<close> and \<open>'theme3'\<close> leave both undefined.
\<close>

theorem getThemeStyles_tokens:
  "isThemeType t \<Longrightarrow>
   container (getThemeStyles t) \<noteq> [] \<and> header (getThemeStyles t) \<noteq> [] \<and>
   nav (getThemeStyles t) \<noteq> [] \<and> navButton (getThemeStyles t) \<noteq> [] \<and>
   button (getThemeStyles t) \<noteq> [] \<and> card' (getThemeStyles t) \<noteq> [] \<and>
   productGrid (getThemeStyles t) \<noteq> [] \<and> productCard (getThemeStyles t) \<noteq> [] \<and>
   title (getThemeStyles t) \<noteq> [] \<and> paragraph' (getThemeStyles t) \<noteq> [] \<and>
   main (getThemeStyles t) \<noteq> [] \<and>
   headerContent (getThemeStyles t) \<noteq> [] \<and> logo (getThemeStyles t) \<noteq> [] \<and>
   dropdown (getThemeStyles t) \<noteq> [] \<and> dropdownButton (getThemeStyles t) \<noteq> [] \<and>
   dropdownMenu (getThemeStyles t) \<noteq> [] \<and>
   (t = ''theme2'' \<longrightarrow>
      (\<exists>s. sidebar (getThemeStyles t) = Some s \<and> s \<noteq> []) \<and>
      (\<exists>c. content (getThemeStyles t) = Some c \<and> c \<noteq> [])) \<and>
   (t \<noteq> ''theme2'' \<longrightarrow>
      sidebar (getThemeStyles t) = None \<and> content (getThemeStyles t) = None)"
  unfolding isThemeType_def
  by (elim disjE)
     (simp_all add: getThemeStyles_theme1 getThemeStyles_theme2 getThemeStyles_theme3 bundle_defs)

theorem getThemeStyles_tokens_witness:
  "isThemeType ''theme2'' \<and> isThemeType ''theme3'' \<and>
   productGrid (getThemeStyles ''theme2'') \<noteq> [] \<and>
   sidebar (getThemeStyles ''theme2'') \<noteq> None \<and>
   sidebar (getThemeStyles ''theme3'') = None"
  using getThemeStyles_tokens [of "''theme2''"] getThemeStyles_tokens [of "''theme3''"]
  by (auto simp add: isThemeType_def)

section \<open>The home page and its products\<close>

text \<open>
  Claim C3. After a successful fetch that carries the products \<open>ps\<close> (any number of
  them, so in particular at most eight), the home page has, for every theme, exactly one
  element with the product-grid token, and its children are all the product cards of the
  page. There are as many cards as products, and the cards are those of \<open>ps\<close> in the
  order of \<open>ps\<close>: read off the rendered cards, the keys are the products' ids, the
  images their \<open>image\<close> and \<open>title\<close>, and the displayed text their title, description
  (each left out when empty), price and rating, product by product.
\<close>

theorem home_product_cards:
  "byClass (productGrid (getThemeStyles t)) (HomePage t (useProducts (Response True (Inr ps))))
     = [Elem ''div'' (cls (productGrid (getThemeStyles t))) (map (productCardElement t) ps)] \<and>
   map children
       (byClass (productGrid (getThemeStyles t)) (HomePage t (useProducts (Response True (Inr ps)))))
     = [byTag ''ProductCard'' (HomePage t (useProducts (Response True (Inr ps))))] \<and>
   byTag ''ProductCard'' (HomePage t (useProducts (Response True (Inr ps))))
     = map (productCardElement t) ps \<and>
   length (byTag ''ProductCard'' (HomePage t (useProducts (Response True (Inr ps))))) = length ps \<and>
   map (getProp ''key'') (byTag ''ProductCard'' (HomePage t (useProducts (Response True (Inr ps)))))
     = map (\<lambda>p. Some (Num (id' p))) ps \<and>
   map (\<lambda>c. map (getProp ''src'') (byTag ''img'' c))
       (byTag ''ProductCard'' (HomePage t (useProducts (Response True (Inr ps)))))
     = map (\<lambda>p. [Some (Str (image' p))]) ps \<and>
   map (\<lambda>c. map (getProp ''alt'') (byTag ''img'' c))
       (byTag ''ProductCard'' (HomePage t (useProducts (Response True (Inr ps)))))
     = map (\<lambda>p. [Some (Str (Product.title p))]) ps \<and>
   map leaves (byTag ''ProductCard'' (HomePage t (useProducts (Response True (Inr ps)))))
     = map (\<lambda>p. (if Product.title p = [] then [] else [Inl (Product.title p)])
                 @ (if description p = [] then [] else [Inl (description p)])
                 @ [Inl ''$'', Inr (price p), Inr (rate (rating p))]) ps"
  by (simp add: grid_of_home cards_of_home key_of_card img_of_card leaves_of_card comp_def)

theorem home_product_cards_witness:
  "map (getProp ''key'') (byTag ''ProductCard'' (HomePage ''theme3'' (useProducts (Response True (Inr
      [\<lparr>id' = 2::nat, Product.title = ''Shirt'', price = 22, description = ''Slim fit'',
         category = ''clothing'', image' = ''shirt.jpg'', rating = \<lparr>rate = 4, count = 259\<rparr>\<rparr>,
       \<lparr>id' = 1, Product.title = ''Backpack'', price = 110, description = [],
         category = ''clothing'', image' = ''pack.jpg'', rating = \<lparr>rate = 3, count = 120\<rparr>\<rparr>])))))
     = [Some (Num 2), Some (Num 1)] \<and>
   map leaves (byTag ''ProductCard'' (HomePage ''theme3'' (useProducts (Response True (Inr
      [\<lparr>id' = 2::nat, Product.title = ''Shirt'', price = 22, description = ''Slim fit'',
         category = ''clothing'', image' = ''shirt.jpg'', rating = \<lparr>rate = 4, count = 259\<rparr>\<rparr>,
       \<lparr>id' = 1, Product.title = ''Backpack'', price = 110, description = [],
         category = ''clothing'', image' = ''pack.jpg'', rating = \<lparr>rate = 3, count = 120\<rparr>\<rparr>])))))
     = [[Inl ''Shirt'', Inl ''Slim fit'', Inl ''$'', Inr 22, Inr 4],
        [Inl ''Backpack'', Inl ''$'', Inr 110, Inr 3]]"
  using home_product_cards [of "''theme3''"
      "[\<lparr>id' = 2::nat, Product.title = ''Shirt'', price = 22, description = ''Slim fit'',
         category = ''clothing'', image' = ''shirt.jpg'', rating = \<lparr>rate = 4, count = 259\<rparr>\<rparr>,
       \<lparr>id' = 1, Product.title = ''Backpack'', price = 110, description = [],
         category = ''clothing'', image' = ''pack.jpg'', rating = \<lparr>rate = 3, count = 120\<rparr>\<rparr>]"]
  by (simp add: key_of_card leaves_of_card)

subsection \<open>A failed fetch\<close>

lemma concat_map_concat:
  "concat (map f (concat xss)) = concat (map (\<lambda>xs. concat (map f xs)) xss)"
  by (induction xss) simp_all

lemma errorMessages_Elem:
  "errorMessages (Elem t ps cs) =
     (case errorText (Elem t ps cs) of None \<Rightarrow> [] | Some e \<Rightarrow> [e])
     @ concat (map errorMessages cs)"
  unfolding errorMessages_def by (simp add: concat_map_concat comp_def)

lemma errorMessages_Txt: "errorMessages (Txt s) = []"
  by (simp add: errorMessages_def)

lemma errorMessages_Number: "errorMessages (Number n) = []"
  by (simp add: errorMessages_def)

lemmas errorMessages_simps = errorMessages_Elem errorMessages_Txt errorMessages_Number

lemma useProducts_failure:
  "tryFetch outcome initialProducts = Inl err \<Longrightarrow>
   useProducts outcome = \<lparr>products = [], loading = False, error = Some (catchMessage err)\<rparr>"
  by (simp add: useProducts_def fetchProducts_def initialProducts_def)

text \<open>Whether the \<open>try\<close> block throws does not depend on the state it started from.\<close>

lemma tryFetch_failure_any:
  "tryFetch outcome st = Inl err \<Longrightarrow> tryFetch outcome st' = Inl err"
  by (auto simp add: tryFetch_def split: fetch_outcome.splits if_splits sum.splits)

lemma errors_of_home:
  "errorMessages (HomePage t \<lparr>products = [], loading = False, error = Some m\<rparr>)
     = (if m = [] then [] else [m])"
  by (simp add: page_defs errorMessages_simps)

lemma cards_of_home_failed:
  "byTag ''ProductCard'' (HomePage t \<lparr>products = [], loading = False, error = Some m\<rparr>) = []"
  by (simp add: page_defs byTag_simps)

text \<open>
  A failure whose message is a non-empty string. When the \<open>try\<close> block of the fetch
  throws (a rejected \<open>fetch\<close>, a response that is not \<open>ok\<close>, or a rejected \<open>json()\<close>) and
  the message the \<open>catch\<close> clause stores is not empty, then for every theme the home page
  shows that message as its only error message and no product card; the product list is
  left as it was before the fetch (the empty list, in the cycle that started at mount)
  and \<open>loading\<close> is cleared. A response that is not \<open>ok\<close> always has the non-empty message
  \<open>'Failed to fetch products'\<close>, and a rejection that is not an \<open>Error\<close> has
  \<open>'An error occurred'\<close>.
\<close>

lemma home_failed_fetch_shown:
  assumes f: "tryFetch outcome initialProducts = Inl err"
    and m: "catchMessage err \<noteq> []"
  shows "products (useProducts outcome) = [] \<and>
   loading (useProducts outcome) = False \<and>
   error (useProducts outcome) = Some (catchMessage err) \<and>
   products (fetchProducts outcome st) = products st \<and>
   byTag ''ProductCard'' (HomePage t (useProducts outcome)) = [] \<and>
   errorMessages (HomePage t (useProducts outcome)) = [catchMessage err]"
proof -
  have u: "useProducts outcome = \<lparr>products = [], loading = False, error = Some (catchMessage err)\<rparr>"
    by (rule useProducts_failure [OF f])
  have "tryFetch outcome st = Inl err"
    by (rule tryFetch_failure_any [OF f])
  then have frame: "products (fetchProducts outcome st) = products st"
    by (simp add: fetchProducts_def)
  show ?thesis
    unfolding u using frame m by (simp add: errors_of_home cards_of_home_failed)
qed

lemma failed_status_message:
  "tryFetch (Response False body) st = Inl err \<Longrightarrow> catchMessage err = ''Failed to fetch products''"
  by (auto simp add: tryFetch_def catchMessage_def)

lemma not_error_message: "catchMessage NotError = ''An error occurred''"
  by (simp add: catchMessage_def)

lemma home_failed_status_shown:
  "byTag ''ProductCard'' (HomePage t (useProducts (Response False body))) = [] \<and>
   errorMessages (HomePage t (useProducts (Response False body))) = [''Failed to fetch products'']"
proof -
  have f: "tryFetch (Response False body) initialProducts = Inl (Error ''Failed to fetch products'')"
    by (simp add: tryFetch_def)
  show ?thesis
    using home_failed_fetch_shown [OF f, of initialProducts t]
    by (simp add: catchMessage_def)
qed


section \<open>The layout variant\<close>
















end
